theory Spec2Isabelle
  imports Main "HOL-Library.Word"
begin

unbundle bit_operations_syntax

section \<open>Host-side driver of the THORChain Ledger application (src/index.js)\<close>

subsection \<open>JavaScript values and Node's Buffer\<close>

text \<open>
  A Buffer is a list of bytes. A JavaScript string is a list of UTF-16 code units, and
  its \<open>length\<close> counts code units. A number that may be \<open>undefined\<close> or \<open>NaN\<close> is an
  option, \<open>None\<close> standing for both (arithmetic on \<open>undefined\<close> gives \<open>NaN\<close>, and
  indexing a Buffer with \<open>NaN\<close> gives \<open>undefined\<close>).
\<close>

type_synonym byte = "8 word"
type_synonym buffer = "byte list"
type_synonym jsstring = "16 word list"

definition js_string :: "string \<Rightarrow> jsstring" where
  "js_string s = map (\<lambda>c. of_nat (of_char c)) s"

datatype exn =
    Error string
  | RangeError
  | TypeError
  | TransportException string

text \<open>\<open>buf[i]\<close>: \<open>undefined\<close> outside the buffer or at a \<open>NaN\<close> index.\<close>

definition buf_at :: "buffer \<Rightarrow> nat option \<Rightarrow> byte option" where
  "buf_at b i = (case i of None \<Rightarrow> None
                 | Some n \<Rightarrow> if n < length b then Some (b ! n) else None)"

text \<open>\<open>a + b\<close> on numbers that may be \<open>NaN\<close>.\<close>

definition js_add :: "nat option \<Rightarrow> nat option \<Rightarrow> nat option" where
  "js_add a b = (case a of None \<Rightarrow> None
                 | Some x \<Rightarrow> (case b of None \<Rightarrow> None | Some y \<Rightarrow> Some (x + y)))"

definition byte_num :: "byte option \<Rightarrow> nat option" where
  "byte_num v = map_option unat v"

text \<open>
  \<open>buf.slice(start, end)\<close> for non-negative bounds: both are clamped to the length, an
  end before the start gives the empty buffer, and a \<open>NaN\<close> bound counts as 0.
\<close>

definition slice :: "buffer \<Rightarrow> nat option \<Rightarrow> nat option \<Rightarrow> buffer" where
  "slice b s e = drop (case s of None \<Rightarrow> 0 | Some n \<Rightarrow> n)
                      (take (case e of None \<Rightarrow> 0 | Some n \<Rightarrow> n) b)"

text \<open>\<open>buf.slice(-2)\<close>: the last two bytes, or the whole buffer when it is shorter.\<close>

definition slice_last2 :: "buffer \<Rightarrow> buffer" where
  "slice_last2 b = drop (length b - 2) b"

text \<open>\<open>buf.slice(start, -2)\<close>: from \<open>start\<close> up to, not including, the last two bytes.\<close>

definition slice_upto_last2 :: "buffer \<Rightarrow> nat \<Rightarrow> buffer" where
  "slice_upto_last2 b s = drop s (take (length b - 2) b)"

text \<open>\<open>Buffer.alloc(n)\<close>: zero-filled.\<close>

definition alloc :: "nat \<Rightarrow> buffer" where
  "alloc n = replicate n 0"

text \<open>\<open>buf.writeUInt8(v, off)\<close>: a RangeError for a value above 255 or an offset outside.\<close>

definition writeUInt8 :: "buffer \<Rightarrow> nat \<Rightarrow> nat \<Rightarrow> exn + buffer" where
  "writeUInt8 b v off =
     (if 255 < v \<or> length b \<le> off then Inl RangeError else Inr (b[off := of_nat v]))"

subsubsection \<open>UTF-8 encoding of a string (\<open>buf.write(str, off)\<close>, default encoding)\<close>

text \<open>
  The code points of a string: a high surrogate followed by a low surrogate is one
  supplementary code point, a lone surrogate is written as U+FFFD.
\<close>

fun code_points :: "jsstring \<Rightarrow> nat list" where
  "code_points [] = []"
| "code_points [u] =
     (if 0xD800 \<le> unat u \<and> unat u \<le> 0xDFFF then [0xFFFD] else [unat u])"
| "code_points (u # l # us) =
     (if 0xD800 \<le> unat u \<and> unat u \<le> 0xDBFF \<and> 0xDC00 \<le> unat l \<and> unat l \<le> 0xDFFF
      then (0x10000 + (unat u - 0xD800) * 1024 + (unat l - 0xDC00)) # code_points us
      else if 0xD800 \<le> unat u \<and> unat u \<le> 0xDFFF then 0xFFFD # code_points (l # us)
      else unat u # code_points (l # us))"

definition utf8_bytes :: "nat \<Rightarrow> buffer" where
  "utf8_bytes c =
     (if c < 0x80 then [of_nat c]
      else if c < 0x800 then [of_nat (0xC0 + c div 64), of_nat (0x80 + c mod 64)]
      else if c < 0x10000 then
        [of_nat (0xE0 + c div 4096), of_nat (0x80 + c div 64 mod 64), of_nat (0x80 + c mod 64)]
      else
        [of_nat (0xF0 + c div 262144), of_nat (0x80 + c div 4096 mod 64),
         of_nat (0x80 + c div 64 mod 64), of_nat (0x80 + c mod 64)])"

text \<open>
  Only whole characters are written: the write stops at the first character whose
  encoding no longer fits into the room that is left.
\<close>

fun fit_chars :: "nat \<Rightarrow> buffer list \<Rightarrow> buffer" where
  "fit_chars room [] = []"
| "fit_chars room (c # cs) =
     (if length c \<le> room then c @ fit_chars (room - length c) cs else [])"

definition buf_write :: "buffer \<Rightarrow> jsstring \<Rightarrow> nat \<Rightarrow> exn + buffer" where
  "buf_write b s off =
     (if length b < off then Inl RangeError
      else let w = fit_chars (length b - off) (map utf8_bytes (code_points s))
           in Inr (take off b @ w @ drop (off + length w) b))"

text \<open>
  Encoding a string as \<open>'ascii'\<close> (for Node the same as \<open>'latin1'\<close>): one byte for each
  code unit, its low eight bits.
\<close>

definition ascii_bytes :: "jsstring \<Rightarrow> buffer" where
  "ascii_bytes s = map ucast s"

subsection \<open>serializeHRP\<close>

datatype hrp_arg = HrpNull | HrpUndefined | HrpString jsstring

definition serializeHRP :: "hrp_arg \<Rightarrow> exn + buffer" where
  "serializeHRP hrp =
     (case hrp of
        HrpNull \<Rightarrow> Inl (Error ''Invalid HRP'')
      | HrpUndefined \<Rightarrow> Inl (Error ''Invalid HRP'')
      | HrpString s \<Rightarrow>
          if length s < 3 \<or> 83 < length s then Inl (Error ''Invalid HRP'')
          else (case writeUInt8 (alloc (1 + length s)) (length s) 0 of
                  Inl e \<Rightarrow> Inl e
                | Inr buf \<Rightarrow> buf_write buf s 1))"

subsubsection \<open>Decoding a Buffer to a string (\<open>buf.toString(encoding)\<close>)\<close>

text \<open>\<open>'ascii'\<close>: one code unit for each byte, its high bit cleared.\<close>

definition ascii_decode :: "buffer \<Rightarrow> jsstring" where
  "ascii_decode b = map (\<lambda>x. ucast (x AND 0x7F)) b"

text \<open>\<open>'hex'\<close>: two lower-case hexadecimal digits for each byte.\<close>

definition hex_digit :: "nat \<Rightarrow> 16 word" where
  "hex_digit n = of_nat (if n < 10 then 48 + n else 87 + n)"

definition hex_string :: "buffer \<Rightarrow> jsstring" where
  "hex_string b = concat (map (\<lambda>x. [hex_digit (unat x div 16), hex_digit (unat x mod 16)]) b)"

text \<open>
  The default encoding, UTF-8. A decoder state is the code point collected so far, the
  number of continuation bytes still needed and the range allowed for the next byte.
  An ill-formed sequence becomes one U+FFFD and the offending byte is looked at again
  as the start of a new character.
\<close>

type_synonym utf8_state = "(nat \<times> nat \<times> nat \<times> nat) option"

definition utf8_start :: "nat \<Rightarrow> nat list \<times> utf8_state" where
  "utf8_start b =
     (if b < 0x80 then ([b], None)
      else if 0xC2 \<le> b \<and> b \<le> 0xDF then ([], Some (b - 0xC0, 1, 0x80, 0xBF))
      else if 0xE0 \<le> b \<and> b \<le> 0xEF then
        ([], Some (b - 0xE0, 2, if b = 0xE0 then 0xA0 else 0x80, if b = 0xED then 0x9F else 0xBF))
      else if 0xF0 \<le> b \<and> b \<le> 0xF4 then
        ([], Some (b - 0xF0, 3, if b = 0xF0 then 0x90 else 0x80, if b = 0xF4 then 0x8F else 0xBF))
      else ([0xFFFD], None))"

fun utf8_run :: "utf8_state \<Rightarrow> nat list \<Rightarrow> nat list" where
  "utf8_run None [] = []"
| "utf8_run (Some st) [] = [0xFFFD]"
| "utf8_run None (b # bs) = (case utf8_start b of (out, st) \<Rightarrow> out @ utf8_run st bs)"
| "utf8_run (Some (c, need, lo, hi)) (b # bs) =
     (if b < lo \<or> hi < b
      then 0xFFFD # (case utf8_start b of (out, st) \<Rightarrow> out @ utf8_run st bs)
      else if need = 1 then (c * 64 + (b - 0x80)) # utf8_run None bs
      else utf8_run (Some (c * 64 + (b - 0x80), need - 1, 0x80, 0xBF)) bs)"

definition utf16_units :: "nat \<Rightarrow> jsstring" where
  "utf16_units c =
     (if c < 0x10000 then [of_nat c]
      else [of_nat (0xD800 + (c - 0x10000) div 1024), of_nat (0xDC00 + (c - 0x10000) mod 1024)])"

definition utf8_decode :: "buffer \<Rightarrow> jsstring" where
  "utf8_decode b = concat (map utf16_units (utf8_run None (map unat b)))"

subsection \<open>getBech32FromPK\<close>

text \<open>
  The hash functions and the bech32 encoder are libraries (crypto, ripemd160, bech32):
  they are parameters. \<open>bech32.encode\<close> may throw.
\<close>

record ('w, 'h, 's) libraries =
  sha256 :: "buffer \<Rightarrow> buffer"
  ripemd160 :: "buffer \<Rightarrow> buffer"
  bech32_toWords :: "buffer \<Rightarrow> 'w"
  bech32_encode :: "'h \<Rightarrow> 'w \<Rightarrow> exn + 's"

definition getBech32FromPK :: "('w, 'h, 's) libraries \<Rightarrow> 'h \<Rightarrow> buffer \<Rightarrow> exn + 's" where
  "getBech32FromPK L hrp pk =
     (if length pk \<noteq> 33 then Inl (Error ''expected compressed public key [31 bytes]'')
      else let hashSha256 = sha256 L pk;
               hashRip = ripemd160 L hashSha256
           in bech32_encode L hrp (bech32_toWords L hashRip))"

subsection \<open>What the driver imports from ./common and ./helperV2\<close>

text \<open>
  Modelled from the spec: the record that the version query of ./common returns
  (VersionInfo in the data model). The driver reads \<open>return_code\<close> and \<open>major\<close> only.
\<close>

record version_response =
  return_code :: nat
  error_message :: string
  test_mode :: bool
  major :: nat
  minor :: nat
  patch :: nat
  device_locked :: bool
  target_id :: buffer

text \<open>
  Modelled from the spec: \<open>ERROR_CODE.NoError\<close> of ./common, the success status word
  0x9000.
\<close>

definition NoError :: nat where
  "NoError = 0x9000"

text \<open>The other constants of ./common are parameters.\<close>

record constants =
  CHUNK_SIZE :: nat
  CLA :: nat
  INS_GET_ADDR_SECP256K1 :: nat
  P1_ONLY_RETRIEVE :: nat
  P1_SHOW_ADDRESS_IN_DEVICE :: nat

text \<open>A value that is thrown (or the reason of a rejected promise).\<close>

datatype thrown = Exn exn | ThrownResponse version_response

text \<open>The plain object \<open>{return_code, error_message}\<close> the driver builds itself.\<close>

record error_result =
  er_return_code :: nat
  er_error_message :: string

text \<open>
  An element of the chunk array: a Buffer, or the error object that serializePath
  returns for an unsupported version.
\<close>

datatype chunk = Buf buffer | ErrorResult error_result

datatype sigval = SigUndefined | SigNull | SigBytes buffer

record chunk_response =
  cr_return_code :: nat
  cr_error_message :: string
  cr_signature :: sigval

text \<open>The arguments of one \<open>transport.send\<close>; an argument left out is \<open>None\<close>.\<close>

record apdu =
  cla :: nat
  ins :: nat
  p1 :: nat
  p2 :: nat
  data :: "buffer option"
  statusList :: "nat list option"

text \<open>
  The transport and the functions of ./common and ./helperV2 are parameters. \<open>'d\<close> is
  the state of the transport and the device behind it: every exchange takes it and
  returns it changed. A rejected promise is \<open>Inl\<close>. \<open>'p\<close> is what processErrorResponse
  makes of a thrown value.
\<close>

record ('d, 'p) externals =
  send :: "'d \<Rightarrow> apdu \<Rightarrow> (thrown + buffer) \<times> 'd"
  getVersion :: "'d \<Rightarrow> (thrown + version_response) \<times> 'd"
  serializePathv2 :: "nat list \<Rightarrow> thrown + buffer"
  signSendChunkv2 :: "'d \<Rightarrow> nat \<Rightarrow> nat \<Rightarrow> chunk \<Rightarrow> (thrown + chunk_response) \<times> 'd"
  errorCodeToString :: "nat option \<Rightarrow> string"
  processErrorResponse :: "thrown \<Rightarrow> 'p"

text \<open>The fields of the application object: \<open>this.versionResponse\<close> and the transport.\<close>

record 'd app =
  versionResponse :: "version_response option"
  transport :: 'd

text \<open>
  What a facade operation resolves to: the record it decoded, or the result of
  processErrorResponse.
\<close>

datatype ('a, 'p) outcome = Result 'a | Processed 'p

subsection \<open>serializePath\<close>

definition serializePath ::
  "('d, 'p) externals \<Rightarrow> 'd app \<Rightarrow> nat list \<Rightarrow> (thrown + chunk) \<times> 'd app" where
  "serializePath X this path =
     (case getVersion X (transport this) of
        (Inl e, d) \<Rightarrow> (Inl e, this\<lparr>transport := d\<rparr>)
      | (Inr v, d) \<Rightarrow>
          (let this' = this\<lparr>versionResponse := Some v, transport := d\<rparr>
           in if return_code v \<noteq> NoError then (Inl (ThrownResponse v), this')
              else if major v = 2 then
                (case serializePathv2 X path of
                   Inl e \<Rightarrow> (Inl e, this')
                 | Inr b \<Rightarrow> (Inr (Buf b), this'))
              else (Inr (ErrorResult \<lparr>er_return_code = 0x6400,
                      er_error_message = ''App Version is not supported''\<rparr>), this')))"

subsection \<open>signGetChunks\<close>

datatype message = MsgString jsstring | MsgBytes buffer

text \<open>\<open>Buffer.from(message)\<close>: a string is encoded as UTF-8, bytes are copied.\<close>

definition Buffer_from :: "message \<Rightarrow> buffer" where
  "Buffer_from m =
     (case m of MsgString s \<Rightarrow> concat (map utf8_bytes (code_points s)) | MsgBytes b \<Rightarrow> b)"

text \<open>
  The loop \<open>for (let i = 0; i < buffer.length; i += CHUNK_SIZE)\<close>. It does not end when
  the chunk size is 0, so its result is an option and \<open>None\<close> is not returning.
\<close>

partial_function (option) chunk_loop ::
  "nat \<Rightarrow> buffer \<Rightarrow> nat \<Rightarrow> chunk list \<Rightarrow> chunk list option" where
  [code]: "chunk_loop csize buffer i chunks =
     (if i < length buffer then
        (let e = i + csize;
             e' = (if i > length buffer then length buffer else e)
         in chunk_loop csize buffer (i + csize)
              (chunks @ [Buf (slice buffer (Some i) (Some e'))]))
      else Some chunks)"

definition signGetChunks ::
  "('d, 'p) externals \<Rightarrow> constants \<Rightarrow> 'd app \<Rightarrow> nat list \<Rightarrow> message
     \<Rightarrow> ((thrown + chunk list) \<times> 'd app) option" where
  "signGetChunks X K this path msg =
     (case serializePath X this path of
        (Inl e, this') \<Rightarrow> Some (Inl e, this')
      | (Inr serializedPath, this') \<Rightarrow>
          (case chunk_loop (CHUNK_SIZE K) (Buffer_from msg) 0 [serializedPath] of
             None \<Rightarrow> None
           | Some chunks \<Rightarrow> Some (Inr chunks, this')))"

subsection \<open>Status word of a response\<close>

text \<open>
  \<open>errorCodeData[0] * 256 + errorCodeData[1]\<close> on \<open>response.slice(-2)\<close>; \<open>NaN\<close> when
  the response has fewer than two bytes.
\<close>

definition status_word :: "buffer \<Rightarrow> nat option" where
  "status_word response =
     (let errorCodeData = slice_last2 response
      in js_add (map_option (\<lambda>n. n * 256) (byte_num (buf_at errorCodeData (Some 0))))
                (byte_num (buf_at errorCodeData (Some 1))))"

subsection \<open>appInfo\<close>

text \<open>\<open>(flagsValue & mask) !== 0\<close>; \<open>undefined & mask\<close> is 0.\<close>

definition flag_set :: "byte option \<Rightarrow> byte \<Rightarrow> bool" where
  "flag_set v m = (case v of None \<Rightarrow> False | Some x \<Rightarrow> x AND m \<noteq> 0)"

record app_info =
  ai_return_code :: "nat option"
  ai_error_message :: string
  appName :: jsstring
  appVersion :: jsstring
  flagLen :: "byte option"
  flagsValue :: "byte option"
  flag_recovery :: bool
  flag_signed_mcu_code :: bool
  flag_onboarded :: bool
  flag_pin_validated :: bool

text \<open>
  The callback that decodes the response. The local object \<open>result\<close> receives the
  error of an unknown format ID, and is not part of what the callback returns.
\<close>

definition appInfo_decode :: "('d, 'p) externals \<Rightarrow> buffer \<Rightarrow> app_info" where
  "appInfo_decode X response =
     (let returnCode = status_word response;
          (result, name, version, fLen, fValue) =
            (if buf_at response (Some 0) \<noteq> Some 1 then
               (Some \<lparr>er_return_code = 0x9001,
                       er_error_message = ''response format ID not recognized''\<rparr>,
                js_string ''err'', js_string ''err'', Some 0, Some 0)
             else
               (let appNameLen = byte_num (buf_at response (Some 1));
                    name = ascii_decode (slice response (Some 2) (js_add (Some 2) appNameLen));
                    idx = js_add (Some 2) appNameLen;
                    appVersionLen = byte_num (buf_at response idx);
                    idx = js_add idx (Some 1);
                    version = ascii_decode (slice response idx (js_add idx appVersionLen));
                    idx = js_add idx appVersionLen;
                    appFlagsLen = buf_at response idx;
                    idx = js_add idx (Some 1)
                in (None, name, version, appFlagsLen, buf_at response idx)))
      in \<lparr>ai_return_code = returnCode,
          ai_error_message = errorCodeToString X returnCode,
          appName = name,
          appVersion = version,
          flagLen = fLen,
          flagsValue = fValue,
          flag_recovery = flag_set fValue 1,
          flag_signed_mcu_code = flag_set fValue 2,
          flag_onboarded = flag_set fValue 4,
          flag_pin_validated = flag_set fValue 128\<rparr>)"

definition appInfo ::
  "('d, 'p) externals \<Rightarrow> 'd app \<Rightarrow> (app_info, 'p) outcome \<times> 'd app" where
  "appInfo X this =
     (case send X (transport this)
             \<lparr>cla = 0xb0, ins = 0x01, p1 = 0, p2 = 0, data = None, statusList = None\<rparr> of
        (Inl e, d) \<Rightarrow> (Processed (processErrorResponse X e), this\<lparr>transport := d\<rparr>)
      | (Inr response, d) \<Rightarrow> (Result (appInfo_decode X response), this\<lparr>transport := d\<rparr>))"

subsection \<open>deviceInfo\<close>

record device_info =
  di_return_code :: "nat option"
  di_error_message :: string
  targetId :: jsstring
  seVersion :: jsstring
  flag :: jsstring
  mcuVersion :: jsstring

datatype device_info_result =
    DashboardOnly "nat option" string
  | DeviceInfo device_info

text \<open>
  The callback that decodes the response. \<open>tmp[mcuVersionLen - 1]\<close> is \<open>undefined\<close> for
  a length of 0 (index -1) and for a length that is \<open>undefined\<close>; the second slice is
  taken only when that element is a byte, so there \<open>mcuVersionLen\<close> is at least 1.
\<close>

definition deviceInfo_decode :: "('d, 'p) externals \<Rightarrow> buffer \<Rightarrow> device_info_result" where
  "deviceInfo_decode X response =
     (let returnCode = status_word response
      in if returnCode = Some 0x6e00 then
           DashboardOnly returnCode ''This command is only available in the Dashboard''
         else
           (let tid = hex_string (slice response (Some 0) (Some 4));
                pos = Some 4;
                secureElementVersionLen = byte_num (buf_at response pos);
                pos = js_add pos (Some 1);
                sev = utf8_decode (slice response pos (js_add pos secureElementVersionLen));
                pos = js_add pos secureElementVersionLen;
                flagsLen = byte_num (buf_at response pos);
                pos = js_add pos (Some 1);
                flg = hex_string (slice response pos (js_add pos flagsLen));
                pos = js_add pos flagsLen;
                mcuVersionLen = byte_num (buf_at response pos);
                pos = js_add pos (Some 1);
                tmp = slice response pos (js_add pos mcuVersionLen);
                lastIdx = (case mcuVersionLen of None \<Rightarrow> None | Some 0 \<Rightarrow> None
                           | Some (Suc n) \<Rightarrow> Some n);
                tmp = (if buf_at tmp lastIdx = Some 0
                       then slice response pos
                              (map_option (\<lambda>n. n - 1) (js_add pos mcuVersionLen))
                       else tmp)
            in DeviceInfo \<lparr>di_return_code = returnCode,
                 di_error_message = errorCodeToString X returnCode,
                 targetId = tid,
                 seVersion = sev,
                 flag = flg,
                 mcuVersion = utf8_decode tmp\<rparr>))"

definition deviceInfo ::
  "('d, 'p) externals \<Rightarrow> 'd app \<Rightarrow> (device_info_result, 'p) outcome \<times> 'd app" where
  "deviceInfo X this =
     (case send X (transport this)
             \<lparr>cla = 0xe0, ins = 0x01, p1 = 0, p2 = 0, data = Some [],
              statusList = Some [NoError, 0x6e00]\<rparr> of
        (Inl e, d) \<Rightarrow> (Processed (processErrorResponse X e), this\<lparr>transport := d\<rparr>)
      | (Inr response, d) \<Rightarrow>
          (Result (deviceInfo_decode X response), this\<lparr>transport := d\<rparr>))"

subsection \<open>getAddressAndPubKey and showAddressAndPubKey\<close>

record address_response =
  bech32_address :: jsstring
  compressed_pk :: buffer
  ar_return_code :: "nat option"
  ar_error_message :: string

text \<open>\<open>Buffer.concat([hrp, serializedPath])\<close>: a TypeError for an element that is no Buffer.\<close>

definition Buffer_concat2 :: "buffer \<Rightarrow> chunk \<Rightarrow> thrown + buffer" where
  "Buffer_concat2 a c =
     (case c of Buf b \<Rightarrow> Inr (a @ b) | ErrorResult r \<Rightarrow> Inl (Exn TypeError))"

definition getAddressAndPubKey ::
  "('d, 'p) externals \<Rightarrow> constants \<Rightarrow> 'd app \<Rightarrow> nat list \<Rightarrow> hrp_arg
     \<Rightarrow> (address_response, 'p) outcome \<times> 'd app" where
  "getAddressAndPubKey X K this path hrp =
     (case serializePath X this path of
        (Inl e, this') \<Rightarrow> (Processed (processErrorResponse X e), this')
      | (Inr serializedPath, this') \<Rightarrow>
          (case serializeHRP hrp of
             Inl e \<Rightarrow> (Processed (processErrorResponse X (Exn e)), this')
           | Inr h \<Rightarrow>
               (case Buffer_concat2 h serializedPath of
                  Inl e \<Rightarrow> (Processed (processErrorResponse X e), this')
                | Inr dat \<Rightarrow>
                    (case send X (transport this')
                            \<lparr>cla = CLA K, ins = INS_GET_ADDR_SECP256K1 K,
                             p1 = P1_ONLY_RETRIEVE K, p2 = 0, data = Some dat,
                             statusList = Some [NoError]\<rparr> of
                       (Inl e, d) \<Rightarrow>
                         (Processed (processErrorResponse X e), this'\<lparr>transport := d\<rparr>)
                     | (Inr response, d) \<Rightarrow>
                         (let returnCode = status_word response;
                              compressedPk = slice response (Some 0) (Some 33);
                              bech32Address = utf8_decode (slice_upto_last2 response 33)
                          in (Result \<lparr>bech32_address = bech32Address,
                                       compressed_pk = compressedPk,
                                       ar_return_code = returnCode,
                                       ar_error_message = errorCodeToString X returnCode\<rparr>,
                              this'\<lparr>transport := d\<rparr>))))))"

definition showAddressAndPubKey ::
  "('d, 'p) externals \<Rightarrow> constants \<Rightarrow> 'd app \<Rightarrow> nat list \<Rightarrow> hrp_arg
     \<Rightarrow> (address_response, 'p) outcome \<times> 'd app" where
  "showAddressAndPubKey X K this path hrp =
     (case serializePath X this path of
        (Inl e, this') \<Rightarrow> (Processed (processErrorResponse X e), this')
      | (Inr serializedPath, this') \<Rightarrow>
          (case serializeHRP hrp of
             Inl e \<Rightarrow> (Processed (processErrorResponse X (Exn e)), this')
           | Inr h \<Rightarrow>
               (case Buffer_concat2 h serializedPath of
                  Inl e \<Rightarrow> (Processed (processErrorResponse X e), this')
                | Inr dat \<Rightarrow>
                    (case send X (transport this')
                            \<lparr>cla = CLA K, ins = INS_GET_ADDR_SECP256K1 K,
                             p1 = P1_SHOW_ADDRESS_IN_DEVICE K, p2 = 0, data = Some dat,
                             statusList = Some [NoError]\<rparr> of
                       (Inl e, d) \<Rightarrow>
                         (Processed (processErrorResponse X e), this'\<lparr>transport := d\<rparr>)
                     | (Inr response, d) \<Rightarrow>
                         (let returnCode = status_word response;
                              compressedPk = slice response (Some 0) (Some 33);
                              bech32Address = utf8_decode (slice_upto_last2 response 33)
                          in (Result \<lparr>bech32_address = bech32Address,
                                       compressed_pk = compressedPk,
                                       ar_return_code = returnCode,
                                       ar_error_message = errorCodeToString X returnCode\<rparr>,
                              this'\<lparr>transport := d\<rparr>))))))"

subsection \<open>signSendChunk and sign\<close>

text \<open>Reading \<open>this.versionResponse.major\<close> before any version query is a TypeError.\<close>

definition signSendChunk ::
  "('d, 'p) externals \<Rightarrow> 'd app \<Rightarrow> nat \<Rightarrow> nat \<Rightarrow> chunk
     \<Rightarrow> (thrown + chunk_response) \<times> 'd app" where
  "signSendChunk X this chunkIdx chunkNum c =
     (case versionResponse this of
        None \<Rightarrow> (Inl (Exn TypeError), this)
      | Some v \<Rightarrow>
          if major v = 2 then
            (case signSendChunkv2 X (transport this) chunkIdx chunkNum c of
               (r, d) \<Rightarrow> (r, this\<lparr>transport := d\<rparr>))
          else (Inr \<lparr>cr_return_code = 0x6400,
                      cr_error_message = ''App Version is not supported'',
                      cr_signature = SigUndefined\<rparr>, this))"

text \<open>
  The loop \<open>for (let i = 1; i < chunks.length; i += 1)\<close> of sign, with the variable
  \<open>result\<close> as an argument. A rejection of signSendChunk leaves the loop as a rejection.
\<close>

function sign_loop ::
  "('d, 'p) externals \<Rightarrow> 'd app \<Rightarrow> chunk list \<Rightarrow> nat \<Rightarrow> chunk_response
     \<Rightarrow> (thrown + chunk_response) \<times> 'd app" where
  "sign_loop X this chunks i result =
     (if i < length chunks then
        (case signSendChunk X this (1 + i) (length chunks) (chunks ! i) of
           (Inl e, this') \<Rightarrow> (Inl e, this')
         | (Inr r, this') \<Rightarrow>
             if cr_return_code r \<noteq> NoError then (Inr r, this')
             else sign_loop X this' chunks (i + 1) r)
      else (Inr result, this))"
  by pat_completeness auto
termination
  by (relation "measure (\<lambda>(X, this, chunks, i, result). length chunks - i)") auto

text \<open>
  sign. The chunk array always holds the serialized path, so \<open>chunks[0]\<close> exists. The
  outer \<open>Inl\<close> is a rejection of the promise that sign returns, \<open>None\<close> is not returning.
\<close>

definition sign ::
  "('d, 'p) externals \<Rightarrow> constants \<Rightarrow> 'd app \<Rightarrow> nat list \<Rightarrow> message
     \<Rightarrow> ((thrown + (chunk_response, 'p) outcome) \<times> 'd app) option" where
  "sign X K this path msg =
     (case signGetChunks X K this path msg of
        None \<Rightarrow> None
      | Some (Inl e, this') \<Rightarrow> Some (Inr (Processed (processErrorResponse X e)), this')
      | Some (Inr chunks, this') \<Rightarrow>
          (case signSendChunk X this' 1 (length chunks) (chunks ! 0) of
             (Inl e, this'') \<Rightarrow> Some (Inr (Processed (processErrorResponse X e)), this'')
           | (Inr response, this'') \<Rightarrow>
               (case sign_loop X this'' chunks 1
                       \<lparr>cr_return_code = cr_return_code response,
                        cr_error_message = cr_error_message response,
                        cr_signature = SigNull\<rparr> of
                  (Inl e, this3) \<Rightarrow> Some (Inl e, this3)
                | (Inr result, this3) \<Rightarrow>
                    Some (Inr (Result \<lparr>cr_return_code = cr_return_code result,
                                       cr_error_message = cr_error_message result,
                                       cr_signature = cr_signature result\<rparr>), this3))))"

subsection \<open>Example collaborators\<close>

text \<open>
  Concrete collaborators on which the properties below are instantiated. The transport
  state is the log of what was sent. The version query answers with a supported
  version.
\<close>

definition example_version :: version_response where
  "example_version =
     \<lparr>return_code = 0x9000, error_message = ''No errors'', test_mode = False,
      major = 2, minor = 0, patch = 0, device_locked = False, target_id = [0x31, 0x10, 0x00, 0x04]\<rparr>"

definition example_constants :: constants where
  "example_constants =
     \<lparr>CHUNK_SIZE = 3, CLA = 0x55, INS_GET_ADDR_SECP256K1 = 0x04,
      P1_ONLY_RETRIEVE = 0, P1_SHOW_ADDRESS_IN_DEVICE = 1\<rparr>"

definition example_status_text :: "nat option \<Rightarrow> string" where
  "example_status_text c =
     (if c = Some 0x9000 then ''No errors''
      else if c = Some 0x6984 then ''Data is invalid''
      else ''Unknown error code'')"

text \<open>The address response of the spec's example: 33 bytes 0xAA, "tthor1xyz", 0x9000.\<close>

definition example_address_response :: buffer where
  "example_address_response =
     replicate 33 0xAA @ ascii_bytes (js_string ''tthor1xyz'') @ [0x90, 0x00]"

text \<open>
  A device that answers the first sign chunk with status 0x6984 and every later chunk
  with success and a signature.
\<close>

definition example_chunk_reply :: "nat \<Rightarrow> chunk_response" where
  "example_chunk_reply idx =
     (if idx = 1 then
        \<lparr>cr_return_code = 0x6984, cr_error_message = ''Data is invalid'',
         cr_signature = SigUndefined\<rparr>
      else
        \<lparr>cr_return_code = 0x9000, cr_error_message = ''No errors'',
         cr_signature = SigBytes [0x30, 0x44]\<rparr>)"

datatype sent = Apdu apdu | SignChunk nat nat chunk

definition example_externals :: "(sent list, thrown) externals" where
  "example_externals =
     \<lparr>send = (\<lambda>d a. (Inr example_address_response, d @ [Apdu a])),
      getVersion = (\<lambda>d. (Inr example_version, d)),
      serializePathv2 = (\<lambda>p. Inr [0x2C, 0x00, 0x00, 0x80]),
      signSendChunkv2 = (\<lambda>d idx num c. (Inr (example_chunk_reply idx), d @ [SignChunk idx num c])),
      errorCodeToString = example_status_text,
      processErrorResponse = (\<lambda>e. e)\<rparr>"

definition example_app :: "sent list app" where
  "example_app = \<lparr>versionResponse = None, transport = []\<rparr>"

definition example_libraries :: "(buffer, jsstring, jsstring) libraries" where
  "example_libraries =
     \<lparr>sha256 = rev, ripemd160 = take 20, bech32_toWords = id,
      bech32_encode = (\<lambda>h w. Inr (h @ map ucast w))\<rparr>"

section \<open>Properties\<close>

subsection \<open>The HRP encoder\<close>

lemma code_points_ascii:
  "\<forall>u\<in>set s. u < 0x80 \<Longrightarrow> map utf8_bytes (code_points s) = map (\<lambda>u. [ucast u]) s"
proof (induction s rule: code_points.induct)
  case 1
  show ?case by simp
next
  case (2 u)
  then have "unat u < 128" by (simp add: word_less_nat_alt)
  then show ?case by (simp add: utf8_bytes_def)
next
  case (3 u l us)
  then have "unat u < 128" by (simp add: word_less_nat_alt)
  with 3 show ?case by (simp add: utf8_bytes_def)
qed

lemma fit_chars_single:
  "length s \<le> room \<Longrightarrow> fit_chars room (map (\<lambda>u. [f u]) s) = map f s"
  by (induction s arbitrary: room) auto

lemma serializeHRP_ascii_string:
  assumes "3 \<le> length s" and "length s \<le> 83" and "\<forall>u\<in>set s. u < 0x80"
  shows "serializeHRP (HrpString s) = Inr (of_nat (length s) # ascii_bytes s)"
proof -
  have w: "writeUInt8 (alloc (Suc (length s))) (length s) 0
             = Inr (of_nat (length s) # replicate (length s) 0)"
    using assms(2) by (simp add: writeUInt8_def alloc_def)
  have f: "fit_chars (length s) (map utf8_bytes (code_points s)) = map ucast s"
    using assms(3) by (simp add: code_points_ascii fit_chars_single)
  show ?thesis
    using assms(1,2) by (simp add: serializeHRP_def w buf_write_def f ascii_bytes_def)
qed

text \<open>
  Claim C6, as the code has it. For every string of 3 to 83 code units that are all
  ASCII (below 0x80), serializeHRP returns the length byte followed by the ASCII bytes
  of the string. For \<open>null\<close>, \<open>undefined\<close> and every string shorter than 3 or longer than
  83 it throws the error "Invalid HRP" and returns no buffer.
\<close>

theorem serializeHRP_bounds:
  "(3 \<le> length s \<and> length s \<le> 83 \<and> (\<forall>u\<in>set s. u < 0x80)
      \<longrightarrow> serializeHRP (HrpString s) = Inr (of_nat (length s) # ascii_bytes s))
   \<and> (length s < 3 \<or> 83 < length s
      \<longrightarrow> serializeHRP (HrpString s) = Inl (Error ''Invalid HRP''))
   \<and> serializeHRP HrpNull = Inl (Error ''Invalid HRP'')
   \<and> serializeHRP HrpUndefined = Inl (Error ''Invalid HRP'')"
  using serializeHRP_ascii_string [of s] by (auto simp: serializeHRP_def)

theorem serializeHRP_bounds_witness:
  "3 \<le> length (js_string ''thor'') \<and> length (js_string ''thor'') \<le> 83
   \<and> list_all (\<lambda>u. u < 0x80) (js_string ''thor'')
   \<and> serializeHRP (HrpString (js_string ''thor'')) = Inr [4, 0x74, 0x68, 0x6F, 0x72]
   \<and> (length (js_string ''th'') < 3 \<or> 83 < length (js_string ''th''))
   \<and> serializeHRP (HrpString (js_string ''th'')) = Inl (Error ''Invalid HRP'')"
proof -
  have a: "3 \<le> length (js_string ''thor'') \<and> length (js_string ''thor'') \<le> 83
      \<and> (\<forall>u\<in>set (js_string ''thor''). u < 0x80)"
    by (simp add: js_string_def)
  have b: "length (js_string ''th'') < 3 \<or> 83 < length (js_string ''th'')"
    by (simp add: js_string_def)
  from a have "serializeHRP (HrpString (js_string ''thor''))
                 = Inr (of_nat (length (js_string ''thor'')) # ascii_bytes (js_string ''thor''))"
    using serializeHRP_bounds [of "js_string ''thor''"] by blast
  moreover from b have "serializeHRP (HrpString (js_string ''th'')) = Inl (Error ''Invalid HRP'')"
    using serializeHRP_bounds [of "js_string ''th''"] by blast
  ultimately show ?thesis using a b by (simp add: js_string_def ascii_bytes_def list_all_iff)
qed

text \<open>
  Claim C6 as stated, for every string, fails: \<open>buf.write\<close> encodes the string as UTF-8 into a
  buffer sized by the number of code units. The string of three U+00E9 has a length
  within the bounds; one character is written in two bytes, the next one no longer fits
  whole, and the last byte stays zero.
\<close>

theorem serializeHRP_non_ascii_counterexample:
  "3 \<le> length [0xE9, 0xE9, 0xE9 :: 16 word] \<and> length [0xE9, 0xE9, 0xE9 :: 16 word] \<le> 83
   \<and> serializeHRP (HrpString [0xE9, 0xE9, 0xE9]) = Inr [3, 0xC3, 0xA9, 0x00]
   \<and> serializeHRP (HrpString [0xE9, 0xE9, 0xE9]) \<noteq> Inr (3 # ascii_bytes [0xE9, 0xE9, 0xE9])"
  by (simp add: serializeHRP_def writeUInt8_def alloc_def buf_write_def utf8_bytes_def
        ascii_bytes_def)

subsection \<open>Address from a public key\<close>

text \<open>
  Claim C10. getBech32FromPK throws for every public key whose length is not 33 (the
  message speaks of 31 bytes), and for a key of 33 bytes it returns what the bech32
  encoder gives, under the HRP, for the words of the RIPEMD-160 hash of the SHA-256
  hash of the key.
\<close>

theorem getBech32FromPK_length_check:
  "(length pk \<noteq> 33
      \<longrightarrow> getBech32FromPK L hrp pk = Inl (Error ''expected compressed public key [31 bytes]''))
   \<and> (length pk = 33
      \<longrightarrow> getBech32FromPK L hrp pk
            = bech32_encode L hrp (bech32_toWords L (ripemd160 L (sha256 L pk))))"
  by (simp add: getBech32FromPK_def)

theorem getBech32FromPK_length_check_witness:
  "length (replicate 31 (0x02 :: byte)) \<noteq> 33
   \<and> getBech32FromPK example_libraries (js_string ''thor'') (replicate 31 0x02)
       = Inl (Error ''expected compressed public key [31 bytes]'')
   \<and> length (replicate 33 (0x02 :: byte)) = 33
   \<and> getBech32FromPK example_libraries (js_string ''thor'') (replicate 33 0x02)
       = bech32_encode example_libraries (js_string ''thor'')
           (bech32_toWords example_libraries
              (ripemd160 example_libraries (sha256 example_libraries (replicate 33 0x02))))"
  using getBech32FromPK_length_check [of "replicate 31 0x02" example_libraries "js_string ''thor''"]
        getBech32FromPK_length_check [of "replicate 33 0x02" example_libraries "js_string ''thor''"]
  by simp

subsection \<open>The version gate of serializePath\<close>

text \<open>
  Claim C5. serializePath queries the version first, on the transport it was given. When
  the query reports a status other than success, the response is thrown and nothing is
  serialized. When the status is success and the major version is not 2, the error
  object with code 0x6400 is returned, not thrown.
\<close>

theorem serializePath_version_gate:
  "transport (snd (serializePath X this path)) = snd (getVersion X (transport this))
   \<and> (getVersion X (transport this) = (Inr v, d) \<and> return_code v \<noteq> NoError
        \<longrightarrow> serializePath X this path
              = (Inl (ThrownResponse v), this\<lparr>versionResponse := Some v, transport := d\<rparr>))
   \<and> (getVersion X (transport this) = (Inr v, d) \<and> return_code v = NoError \<and> major v \<noteq> 2
        \<longrightarrow> serializePath X this path
              = (Inr (ErrorResult \<lparr>er_return_code = 0x6400,
                        er_error_message = ''App Version is not supported''\<rparr>),
                 this\<lparr>versionResponse := Some v, transport := d\<rparr>))"
  by (auto simp: serializePath_def Let_def split: prod.splits sum.splits)

theorem serializePath_version_gate_witness:
  "return_code (example_version\<lparr>return_code := 0x6986\<rparr>) \<noteq> NoError
   \<and> return_code (example_version\<lparr>major := 1\<rparr>) = NoError
   \<and> major (example_version\<lparr>major := 1\<rparr>) \<noteq> 2
   \<and> serializePath
       (example_externals\<lparr>getVersion := \<lambda>d. (Inr (example_version\<lparr>return_code := 0x6986\<rparr>), d)\<rparr>)
       example_app [44, 931, 0, 0, 0]
     = (Inl (ThrownResponse (example_version\<lparr>return_code := 0x6986\<rparr>)),
        example_app\<lparr>versionResponse := Some (example_version\<lparr>return_code := 0x6986\<rparr>),
                    transport := []\<rparr>)
   \<and> serializePath
       (example_externals\<lparr>getVersion := \<lambda>d. (Inr (example_version\<lparr>major := 1\<rparr>), d)\<rparr>)
       example_app [44, 931, 0, 0, 0]
     = (Inr (ErrorResult \<lparr>er_return_code = 0x6400,
               er_error_message = ''App Version is not supported''\<rparr>),
        example_app\<lparr>versionResponse := Some (example_version\<lparr>major := 1\<rparr>), transport := []\<rparr>)"
proof -
  let ?X1 = "example_externals\<lparr>getVersion := \<lambda>d. (Inr (example_version\<lparr>return_code := 0x6986\<rparr>), d)\<rparr>"
  let ?X2 = "example_externals\<lparr>getVersion := \<lambda>d. (Inr (example_version\<lparr>major := 1\<rparr>), d)\<rparr>"
  have 1: "getVersion ?X1 (transport example_app) = (Inr (example_version\<lparr>return_code := 0x6986\<rparr>), [])
           \<and> return_code (example_version\<lparr>return_code := 0x6986\<rparr>) \<noteq> NoError"
    by (simp add: example_app_def NoError_def)
  have 2: "getVersion ?X2 (transport example_app) = (Inr (example_version\<lparr>major := 1\<rparr>), [])
           \<and> return_code (example_version\<lparr>major := 1\<rparr>) = NoError
           \<and> major (example_version\<lparr>major := 1\<rparr>) \<noteq> 2"
    by (simp add: example_app_def example_version_def NoError_def)
  from 1 have "serializePath ?X1 example_app [44, 931, 0, 0, 0]
     = (Inl (ThrownResponse (example_version\<lparr>return_code := 0x6986\<rparr>)),
        example_app\<lparr>versionResponse := Some (example_version\<lparr>return_code := 0x6986\<rparr>),
                    transport := []\<rparr>)"
    using serializePath_version_gate [of ?X1 example_app "[44, 931, 0, 0, 0]"
             "example_version\<lparr>return_code := 0x6986\<rparr>" "[]"] by blast
  moreover from 2 have "serializePath ?X2 example_app [44, 931, 0, 0, 0]
     = (Inr (ErrorResult \<lparr>er_return_code = 0x6400,
               er_error_message = ''App Version is not supported''\<rparr>),
        example_app\<lparr>versionResponse := Some (example_version\<lparr>major := 1\<rparr>), transport := []\<rparr>)"
    using serializePath_version_gate [of ?X2 example_app "[44, 931, 0, 0, 0]"
             "example_version\<lparr>major := 1\<rparr>" "[]"] by blast
  ultimately show ?thesis using 1 2 by simp
qed

subsection \<open>Decoding the application information\<close>

lemma status_word_last2: "status_word (bs @ [s1, s2]) = Some (unat s1 * 256 + unat s2)"
  by (simp add: status_word_def slice_last2_def buf_at_def byte_num_def js_add_def)

text \<open>
  Claim C3 at the response \<open>[2, 0x90, 0x00]\<close>, whose format ID is 2: the decoded record
  carries the status word 0x9000 of the response and its message; the code 0x9001 and
  the message of the unknown format are not in it. The name and the version are "err".
\<close>

theorem appInfo_unknown_format_status:
  "appInfo_decode X [2, 0x90, 0x00]
     = \<lparr>ai_return_code = Some 0x9000,
        ai_error_message = errorCodeToString X (Some 0x9000),
        appName = js_string ''err'',
        appVersion = js_string ''err'',
        flagLen = Some 0,
        flagsValue = Some 0,
        flag_recovery = False,
        flag_signed_mcu_code = False,
        flag_onboarded = False,
        flag_pin_validated = False\<rparr>"
  using status_word_last2 [of "[2]" "0x90" "0x00"]
  by (simp add: appInfo_decode_def buf_at_def flag_set_def Let_def)

text \<open>For every response whose first byte is not 1 the status is the one of the response.\<close>

lemma appInfo_unknown_format:
  assumes "buf_at response (Some 0) \<noteq> Some 1"
  shows "ai_return_code (appInfo_decode X response) = status_word response"
    and "appName (appInfo_decode X response) = js_string ''err''"
    and "appVersion (appInfo_decode X response) = js_string ''err''"
  using assms by (simp_all add: appInfo_decode_def Let_def)

text \<open>
  Claim C4, as the code has it. For a response with format ID 1, name "abc", version
  "1.0" and flags byte 0x85, whatever the length byte of the flags and the bytes after
  the flags byte, the record has flag_recovery, flag_onboarded and flag_pin_validated set
  and flag_signed_mcu_code clear. In every decoded record the four flags are the tests
  of the flags value against the masks 0x01, 0x02, 0x04 and 0x80.
\<close>

theorem appInfo_flags:
  "appName (appInfo_decode X ([1, 3, 0x61, 0x62, 0x63, 3, 0x31, 0x2E, 0x30, fl, 0x85] @ rest))
     = js_string ''abc''
   \<and> appVersion (appInfo_decode X ([1, 3, 0x61, 0x62, 0x63, 3, 0x31, 0x2E, 0x30, fl, 0x85] @ rest))
     = js_string ''1.0''
   \<and> flagsValue (appInfo_decode X ([1, 3, 0x61, 0x62, 0x63, 3, 0x31, 0x2E, 0x30, fl, 0x85] @ rest))
     = Some 0x85
   \<and> flag_recovery (appInfo_decode X ([1, 3, 0x61, 0x62, 0x63, 3, 0x31, 0x2E, 0x30, fl, 0x85] @ rest))
   \<and> \<not> flag_signed_mcu_code
         (appInfo_decode X ([1, 3, 0x61, 0x62, 0x63, 3, 0x31, 0x2E, 0x30, fl, 0x85] @ rest))
   \<and> flag_onboarded (appInfo_decode X ([1, 3, 0x61, 0x62, 0x63, 3, 0x31, 0x2E, 0x30, fl, 0x85] @ rest))
   \<and> flag_pin_validated
         (appInfo_decode X ([1, 3, 0x61, 0x62, 0x63, 3, 0x31, 0x2E, 0x30, fl, 0x85] @ rest))
   \<and> flag_recovery (appInfo_decode X response)
       = (case flagsValue (appInfo_decode X response) of None \<Rightarrow> False | Some b \<Rightarrow> b AND 0x01 \<noteq> 0)
   \<and> flag_signed_mcu_code (appInfo_decode X response)
       = (case flagsValue (appInfo_decode X response) of None \<Rightarrow> False | Some b \<Rightarrow> b AND 0x02 \<noteq> 0)
   \<and> flag_onboarded (appInfo_decode X response)
       = (case flagsValue (appInfo_decode X response) of None \<Rightarrow> False | Some b \<Rightarrow> b AND 0x04 \<noteq> 0)
   \<and> flag_pin_validated (appInfo_decode X response)
       = (case flagsValue (appInfo_decode X response) of None \<Rightarrow> False | Some b \<Rightarrow> b AND 0x80 \<noteq> 0)"
  by (simp add: appInfo_decode_def buf_at_def byte_num_def js_add_def slice_def
        ascii_decode_def js_string_def flag_set_def Let_def split: prod.splits)

theorem appInfo_flags_witness:
  "flagsValue (appInfo_decode example_externals
       [1, 3, 0x61, 0x62, 0x63, 3, 0x31, 0x2E, 0x30, 1, 0x85, 0x90, 0x00]) = Some 0x85
   \<and> flag_recovery (appInfo_decode example_externals
       [1, 3, 0x61, 0x62, 0x63, 3, 0x31, 0x2E, 0x30, 1, 0x85, 0x90, 0x00])
   \<and> \<not> flag_signed_mcu_code (appInfo_decode example_externals
       [1, 3, 0x61, 0x62, 0x63, 3, 0x31, 0x2E, 0x30, 1, 0x85, 0x90, 0x00])
   \<and> flag_onboarded (appInfo_decode example_externals
       [1, 3, 0x61, 0x62, 0x63, 3, 0x31, 0x2E, 0x30, 1, 0x85, 0x90, 0x00])
   \<and> flag_pin_validated (appInfo_decode example_externals
       [1, 3, 0x61, 0x62, 0x63, 3, 0x31, 0x2E, 0x30, 1, 0x85, 0x90, 0x00])"
  using appInfo_flags [of example_externals 1 "[0x90, 0x00]"] by simp

text \<open>
  Claim C4 as stated, with flag_onboarded false, fails: the flags byte 0x85 has the bit
  0x04 set, so flag_onboarded is true in the record decoded from that response.
\<close>

theorem appInfo_onboarded_counterexample:
  "flagsValue (appInfo_decode example_externals
       [1, 3, 0x61, 0x62, 0x63, 3, 0x31, 0x2E, 0x30, 1, 0x85, 0x90, 0x00]) = Some 0x85
   \<and> flag_onboarded (appInfo_decode example_externals
       [1, 3, 0x61, 0x62, 0x63, 3, 0x31, 0x2E, 0x30, 1, 0x85, 0x90, 0x00]) \<noteq> False"
  by (simp add: appInfo_decode_def buf_at_def byte_num_def js_add_def slice_def flag_set_def Let_def)

subsection \<open>Decoding the device information\<close>

text \<open>On ASCII bytes the UTF-8 decoding is the ASCII decoding.\<close>

lemma utf8_run_ascii: "\<forall>b\<in>set bs. b < 0x80 \<Longrightarrow> utf8_run None bs = bs"
  by (induction bs) (auto simp: utf8_start_def)

lemma and_7F: "(b::byte) < 0x80 \<Longrightarrow> b AND 0x7F = b"
  using less_mask_eq [of b 7] by (simp add: mask_eq_exp_minus_1)

lemma utf8_decode_ascii:
  assumes "\<forall>b\<in>set bs. b < 0x80"
  shows "utf8_decode bs = ascii_decode bs"
proof -
  from assms have "\<forall>n\<in>set (map unat bs). n < 0x80"
    by (auto simp: word_less_nat_alt)
  then have r: "utf8_run None (map unat bs) = map unat bs"
    by (rule utf8_run_ascii)
  have u: "utf16_units (unat b) = [ucast b]" if "b < 0x80" for b :: byte
    using that by (simp add: utf16_units_def word_less_nat_alt)
  from assms show ?thesis
    unfolding utf8_decode_def ascii_decode_def r
    by (induction bs) (simp_all add: u and_7F)
qed

text \<open>
  Claim C7. Let the response hold the 4-byte target id and the three length-prefixed
  fields (secure-element version, flags, MCU version), followed by anything that ends in
  a status word other than 0x6e00. Then the record is decoded, and mcuVersion is the
  decoding of the MCU field without its last byte when that byte is zero (one byte is
  removed, also when the byte before it is zero too), and of the whole field otherwise.
\<close>

theorem deviceInfo_mcu_version:
  assumes resp: "response = tid @ seLen # se @ flLen # fl @ mcuLen # mcu @ rest"
    and tid: "length tid = 4"
    and se: "unat seLen = length se"
    and fl: "unat flLen = length fl"
    and mcu: "unat mcuLen = length mcu"
    and st: "status_word response \<noteq> Some 0x6e00"
  shows "deviceInfo_decode X response
           = DeviceInfo \<lparr>di_return_code = status_word response,
               di_error_message = errorCodeToString X (status_word response),
               targetId = hex_string tid,
               seVersion = utf8_decode se,
               flag = hex_string fl,
               mcuVersion = utf8_decode (if mcu \<noteq> [] \<and> last mcu = 0 then butlast mcu else mcu)\<rparr>"
proof (cases mcu rule: rev_cases)
  case Nil
  then show ?thesis
    using st tid se fl mcu unfolding resp
    by (simp add: deviceInfo_decode_def Let_def buf_at_def slice_def byte_num_def js_add_def
          nth_append take_Cons' drop_Cons')
next
  case (snoc ys y)
  then show ?thesis
    using st tid se fl mcu unfolding resp
    by (simp add: deviceInfo_decode_def Let_def buf_at_def slice_def byte_num_def js_add_def
          nth_append take_Cons' drop_Cons')
qed


theorem deviceInfo_mcu_version_witness:
  "deviceInfo_decode example_externals
       [0x31, 0x10, 0x00, 0x04, 3, 0x31, 0x2E, 0x36, 1, 0xEE, 4, 0x31, 0x2E, 0x37, 0x00, 0x90, 0x00]
     = DeviceInfo \<lparr>di_return_code = Some 0x9000, di_error_message = ''No errors'',
         targetId = js_string ''31100004'', seVersion = js_string ''1.6'',
         flag = js_string ''ee'', mcuVersion = js_string ''1.7''\<rparr>
   \<and> deviceInfo_decode example_externals
       [0x31, 0x10, 0x00, 0x04, 3, 0x31, 0x2E, 0x36, 1, 0xEE, 3, 0x31, 0x2E, 0x37, 0x90, 0x00]
     = DeviceInfo \<lparr>di_return_code = Some 0x9000, di_error_message = ''No errors'',
         targetId = js_string ''31100004'', seVersion = js_string ''1.6'',
         flag = js_string ''ee'', mcuVersion = js_string ''1.7''\<rparr>"
proof -
  have d: "utf8_decode [0x31, 0x2E, 0x36] = js_string ''1.6''"
          "utf8_decode [0x31, 0x2E, 0x37] = js_string ''1.7''"
    by (simp_all add: utf8_decode_ascii ascii_decode_def js_string_def)
  have h: "hex_string [0x31, 0x10, 0x00, 0x04] = js_string ''31100004''"
          "hex_string [0xEE] = js_string ''ee''"
    by (simp_all add: hex_string_def hex_digit_def js_string_def)
  have s: "status_word [0x31, 0x10, 0x00, 0x04, 3, 0x31, 0x2E, 0x36, 1, 0xEE, 4, 0x31, 0x2E, 0x37, 0x00, 0x90, 0x00] = Some 0x9000"
          "status_word [0x31, 0x10, 0x00, 0x04, 3, 0x31, 0x2E, 0x36, 1, 0xEE, 3, 0x31, 0x2E, 0x37, 0x90, 0x00] = Some 0x9000"
    by (simp_all add: status_word_def slice_last2_def buf_at_def byte_num_def js_add_def)
  have "deviceInfo_decode example_externals
       [0x31, 0x10, 0x00, 0x04, 3, 0x31, 0x2E, 0x36, 1, 0xEE, 4, 0x31, 0x2E, 0x37, 0x00, 0x90, 0x00]
     = DeviceInfo \<lparr>di_return_code = Some 0x9000, di_error_message = ''No errors'',
         targetId = js_string ''31100004'', seVersion = js_string ''1.6'',
         flag = js_string ''ee'', mcuVersion = js_string ''1.7''\<rparr>"
    using s(1)
      deviceInfo_mcu_version [of _ "[0x31, 0x10, 0x00, 0x04]" 3 "[0x31, 0x2E, 0x36]" 1 "[0xEE]" 4
        "[0x31, 0x2E, 0x37, 0x00]" "[0x90, 0x00]" example_externals]
    by (simp add: d h example_externals_def example_status_text_def)
  moreover have "deviceInfo_decode example_externals
       [0x31, 0x10, 0x00, 0x04, 3, 0x31, 0x2E, 0x36, 1, 0xEE, 3, 0x31, 0x2E, 0x37, 0x90, 0x00]
     = DeviceInfo \<lparr>di_return_code = Some 0x9000, di_error_message = ''No errors'',
         targetId = js_string ''31100004'', seVersion = js_string ''1.6'',
         flag = js_string ''ee'', mcuVersion = js_string ''1.7''\<rparr>"
    using s(2)
      deviceInfo_mcu_version [of _ "[0x31, 0x10, 0x00, 0x04]" 3 "[0x31, 0x2E, 0x36]" 1 "[0xEE]" 3
        "[0x31, 0x2E, 0x37]" "[0x90, 0x00]" example_externals]
    by (simp add: d h example_externals_def example_status_text_def)
  ultimately show ?thesis by simp
qed

subsection \<open>The address operations\<close>

text \<open>
  Claim C8. When the path and the HRP are serialized and the transport answers the
  address request with 33 bytes of public key, an ASCII address and the two bytes of the
  status word, getAddressAndPubKey returns the 33 bytes as compressed_pk, the ASCII
  decoding of the bytes between them and the status word as bech32_address, and the
  status word, high byte first, as return_code.
\<close>

theorem getAddressAndPubKey_decode:
  assumes "serializePath X this path = (Inr (Buf sp), this')"
    and "serializeHRP hrp = Inr h"
    and "send X (transport this')
           \<lparr>cla = CLA K, ins = INS_GET_ADDR_SECP256K1 K, p1 = P1_ONLY_RETRIEVE K, p2 = 0,
            data = Some (h @ sp), statusList = Some [NoError]\<rparr>
         = (Inr (pk @ addr @ [s1, s2]), d)"
    and "length pk = 33"
    and "\<forall>b\<in>set addr. b < 0x80"
  shows "getAddressAndPubKey X K this path hrp
           = (Result \<lparr>bech32_address = ascii_decode addr,
                compressed_pk = pk,
                ar_return_code = Some (unat s1 * 256 + unat s2),
                ar_error_message = errorCodeToString X (Some (unat s1 * 256 + unat s2))\<rparr>,
              this'\<lparr>transport := d\<rparr>)"
proof -
  have st: "status_word (pk @ addr @ [s1, s2]) = Some (unat s1 * 256 + unat s2)"
    using status_word_last2 [of "pk @ addr" s1 s2] by simp
  have k: "slice (pk @ addr @ [s1, s2]) (Some 0) (Some 33) = pk"
    using assms(4) by (simp add: slice_def)
  have a: "slice_upto_last2 (pk @ addr @ [s1, s2]) 33 = addr"
    using assms(4) by (simp add: slice_upto_last2_def)
  show ?thesis
    using assms(1,2,3) utf8_decode_ascii [OF assms(5)]
    by (simp add: getAddressAndPubKey_def Buffer_concat2_def Let_def st k a)
qed

theorem getAddressAndPubKey_decode_witness:
  "getAddressAndPubKey example_externals example_constants example_app [44, 931, 0, 0, 0]
       (HrpString (js_string ''tthor''))
     = (Result \<lparr>bech32_address = js_string ''tthor1xyz'',
          compressed_pk = replicate 33 0xAA,
          ar_return_code = Some 0x9000,
          ar_error_message = ''No errors''\<rparr>,
        \<lparr>versionResponse = Some example_version,
         transport = [Apdu \<lparr>cla = 0x55, ins = 0x04, p1 = 0, p2 = 0,
                        data = Some [5, 0x74, 0x74, 0x68, 0x6F, 0x72, 0x2C, 0x00, 0x00, 0x80],
                        statusList = Some [0x9000]\<rparr>]\<rparr>)"
proof -
  let ?this' = "\<lparr>versionResponse = Some example_version, transport = ([] :: sent list)\<rparr>"
  let ?h = "[5, 0x74, 0x74, 0x68, 0x6F, 0x72] :: buffer"
  let ?sp = "[0x2C, 0x00, 0x00, 0x80] :: buffer"
  let ?a = "\<lparr>cla = CLA example_constants, ins = INS_GET_ADDR_SECP256K1 example_constants,
            p1 = P1_ONLY_RETRIEVE example_constants, p2 = 0,
            data = Some (?h @ ?sp), statusList = Some [NoError]\<rparr>"
  have 1: "serializePath example_externals example_app [44, 931, 0, 0, 0] = (Inr (Buf ?sp), ?this')"
    by (simp add: serializePath_def example_externals_def example_app_def example_version_def
          NoError_def)
  have 2: "serializeHRP (HrpString (js_string ''tthor'')) = Inr ?h"
    using serializeHRP_ascii_string [of "js_string ''tthor''"]
    by (simp add: js_string_def ascii_bytes_def)
  have 3: "send example_externals (transport ?this') ?a
             = (Inr (replicate 33 0xAA @ ascii_bytes (js_string ''tthor1xyz'') @ [0x90, 0x00]),
                [Apdu ?a])"
    by (simp add: example_externals_def example_address_response_def)
  have 4: "length (replicate 33 (0xAA :: byte)) = 33"
    by simp
  have 5: "\<forall>b\<in>set (ascii_bytes (js_string ''tthor1xyz'')). b < 0x80"
    by (simp add: ascii_bytes_def js_string_def)
  show ?thesis
    using getAddressAndPubKey_decode [OF 1 2 3 4 5]
    by (simp add: example_externals_def example_status_text_def example_constants_def
          NoError_def ascii_decode_def ascii_bytes_def js_string_def)
qed

lemma serializePath_send:
  "serializePath (X\<lparr>send := f\<rparr>) this path = serializePath X this path"
  by (simp add: serializePath_def Let_def split: prod.splits sum.splits)

text \<open>
  Claim C9. showAddressAndPubKey is getAddressAndPubKey on a transport that differs in one
  thing: it sets p1 of every request to "show on device" before passing it on. The other
  way round, getAddressAndPubKey is showAddressAndPubKey on a transport that sets p1 to
  "only retrieve". So the two operations send the same requests but for p1, and for the
  same answers of the transport they return the same result and leave the same state.
\<close>

theorem show_and_get_differ_in_p1:
  "showAddressAndPubKey X K this path hrp
     = getAddressAndPubKey
         (X\<lparr>send := \<lambda>d a. send X d (a\<lparr>p1 := P1_SHOW_ADDRESS_IN_DEVICE K\<rparr>)\<rparr>) K this path hrp
   \<and> getAddressAndPubKey X K this path hrp
     = showAddressAndPubKey
         (X\<lparr>send := \<lambda>d a. send X d (a\<lparr>p1 := P1_ONLY_RETRIEVE K\<rparr>)\<rparr>) K this path hrp"
  by (auto simp: showAddressAndPubKey_def getAddressAndPubKey_def serializePath_send
        split: prod.splits sum.splits)


text \<open>
  On the example transport, which logs what it is sent, the request of
  showAddressAndPubKey is the one of getAddressAndPubKey with p1 = 1, and the decoded
  address is the same.
\<close>

lemma example_address_run:
  "getAddressAndPubKey
       (example_externals\<lparr>send := \<lambda>d a. send example_externals d (a\<lparr>p1 := q\<rparr>)\<rparr>)
       example_constants example_app [44, 931, 0, 0, 0] (HrpString (js_string ''tthor''))
     = (Result \<lparr>bech32_address = js_string ''tthor1xyz'',
          compressed_pk = replicate 33 0xAA,
          ar_return_code = Some 0x9000,
          ar_error_message = ''No errors''\<rparr>,
        \<lparr>versionResponse = Some example_version,
         transport = [Apdu \<lparr>cla = 0x55, ins = 0x04, p1 = q, p2 = 0,
                        data = Some [5, 0x74, 0x74, 0x68, 0x6F, 0x72, 0x2C, 0x00, 0x00, 0x80],
                        statusList = Some [0x9000]\<rparr>]\<rparr>)"
proof -
  have 1: "serializePath example_externals example_app [44, 931, 0, 0, 0]
             = (Inr (Buf [0x2C, 0x00, 0x00, 0x80]),
                \<lparr>versionResponse = Some example_version, transport = []\<rparr>)"
    by (simp add: serializePath_def example_externals_def example_app_def example_version_def
          NoError_def)
  have 2: "serializeHRP (HrpString (js_string ''tthor'')) = Inr [5, 0x74, 0x74, 0x68, 0x6F, 0x72]"
    using serializeHRP_ascii_string [of "js_string ''tthor''"]
    by (simp add: js_string_def ascii_bytes_def)
  have 3: "status_word example_address_response = Some 0x9000"
    using status_word_last2 [of "replicate 33 0xAA @ ascii_bytes (js_string ''tthor1xyz'')" "0x90" "0x00"]
    by (simp add: example_address_response_def)
  have 4: "slice example_address_response (Some 0) (Some 33) = replicate 33 0xAA"
    by (simp add: example_address_response_def slice_def)
  have "utf8_decode (ascii_bytes (js_string ''tthor1xyz'')) = js_string ''tthor1xyz''"
    by (simp add: utf8_decode_ascii ascii_decode_def ascii_bytes_def js_string_def)
  then have 5: "utf8_decode (slice_upto_last2 example_address_response 33) = js_string ''tthor1xyz''"
    by (simp add: example_address_response_def slice_upto_last2_def)
  have 6: "send example_externals d a = (Inr example_address_response, d @ [Apdu a])" for d a
    by (simp add: example_externals_def)
  have 7: "errorCodeToString example_externals (Some 0x9000) = ''No errors''"
    by (simp add: example_externals_def example_status_text_def)
  show ?thesis
    unfolding getAddressAndPubKey_def serializePath_send 1
    by (simp add: 2 Buffer_concat2_def 3 4 5 6 7 example_constants_def NoError_def Let_def)
qed

theorem show_and_get_differ_in_p1_witness:
  "showAddressAndPubKey example_externals example_constants example_app [44, 931, 0, 0, 0]
       (HrpString (js_string ''tthor''))
     = (Result \<lparr>bech32_address = js_string ''tthor1xyz'',
          compressed_pk = replicate 33 0xAA,
          ar_return_code = Some 0x9000,
          ar_error_message = ''No errors''\<rparr>,
        \<lparr>versionResponse = Some example_version,
         transport = [Apdu \<lparr>cla = 0x55, ins = 0x04, p1 = 1, p2 = 0,
                        data = Some [5, 0x74, 0x74, 0x68, 0x6F, 0x72, 0x2C, 0x00, 0x00, 0x80],
                        statusList = Some [0x9000]\<rparr>]\<rparr>)"
proof -
  have k: "P1_SHOW_ADDRESS_IN_DEVICE example_constants = 1"
          "P1_ONLY_RETRIEVE example_constants = 0"
    by (simp_all add: example_constants_def)
  have "showAddressAndPubKey example_externals example_constants example_app [44, 931, 0, 0, 0]
          (HrpString (js_string ''tthor''))
        = getAddressAndPubKey
            (example_externals\<lparr>send := \<lambda>d a. send example_externals d (a\<lparr>p1 := 1\<rparr>)\<rparr>)
            example_constants example_app [44, 931, 0, 0, 0] (HrpString (js_string ''tthor''))"
    using show_and_get_differ_in_p1 [of example_externals example_constants example_app
            "[44, 931, 0, 0, 0]" "HrpString (js_string ''tthor'')"]
    by (simp only: k)
  then show ?thesis
    by (simp only: example_address_run)
qed

subsection \<open>Chunking a message\<close>

lemma ceil_div_Suc:
  fixes n c :: nat
  assumes "0 < c" and "0 < n"
  shows "(n + c - 1) div c = Suc ((n - 1) div c)"
proof -
  have e: "n + c - 1 = (n - 1) + c"
    using assms by simp
  have "(n - 1 + c) div c = (n - 1) div c + 1"
    by (rule div_add_self2) (use assms in simp)
  with e show ?thesis
    by (simp only: Suc_eq_plus1)
qed

lemma ceil_div_step:
  fixes n c :: nat
  assumes "0 < c" and "0 < n"
  shows "(n + c - 1) div c = Suc ((n - c + c - 1) div c)"
proof (cases "c \<le> n")
  case True
  then have "n - c + c - 1 = n - 1"
    by simp
  then show ?thesis
    using ceil_div_Suc [OF assms] by (simp only:)
next
  case False
  then have "n - c + c - 1 = c - 1"
    by simp
  moreover have "(c - 1) div c = 0"
    using assms by simp
  moreover have "(n - 1) div c = 0"
    using False assms by simp
  ultimately show ?thesis
    using ceil_div_Suc [OF assms] by (simp only:)
qed

lemma chunk_loop_frames:
  assumes c: "0 < c"
  shows "\<exists>frames. chunk_loop c buf i acc = Some (acc @ map Buf frames)
           \<and> concat frames = drop i buf
           \<and> length frames = (length buf - i + c - 1) div c
           \<and> (\<forall>f\<in>set (butlast frames). length f = c)
           \<and> (\<forall>f\<in>set frames. 0 < length f \<and> length f \<le> c)"
proof (induction "length buf - i" arbitrary: i acc rule: less_induct)
  case less
  show ?case
  proof (cases "i < length buf")
    case False
    then have "chunk_loop c buf i acc = Some (acc @ map Buf [])"
      by (subst chunk_loop.simps) simp
    moreover have "(length buf - i + c - 1) div c = 0"
      using False c by simp
    ultimately show ?thesis
      using False by (intro exI [of _ "[]"]) simp
  next
    case True
    define w where "w = take c (drop i buf)"
    have w_slice: "slice buf (Some i) (Some (i + c)) = w"
      by (simp add: slice_def w_def take_drop add.commute)
    have step: "chunk_loop c buf i acc = chunk_loop c buf (i + c) ((acc @ [Buf w]))"
      using True by (subst chunk_loop.simps) (simp add: w_slice Let_def)
    have "length buf - (i + c) < length buf - i"
      using True c by simp
    from less [OF this, of "acc @ [Buf w]"]
    obtain fs where fs: "chunk_loop c buf (i + c) (acc @ [Buf w]) = Some ((acc @ [Buf w]) @ map Buf fs)"
      and cat: "concat fs = drop (i + c) buf"
      and len: "length fs = (length buf - (i + c) + c - 1) div c"
      and full: "\<forall>f\<in>set (butlast fs). length f = c"
      and bnd: "\<forall>f\<in>set fs. 0 < length f \<and> length f \<le> c"
      by blast
    have w_len: "0 < length w \<and> length w \<le> c"
      using True c by (simp add: w_def)
    have w_full: "length w = c" if "fs \<noteq> []"
    proof -
      from that bnd have "concat fs \<noteq> []"
        by (cases fs) auto
      with cat have "i + c < length buf" by simp
      then show ?thesis by (simp add: w_def)
    qed
    have "chunk_loop c buf i acc = Some (acc @ map Buf (w # fs))"
      using step fs by simp
    moreover have "concat (w # fs) = drop i buf"
      using cat by (simp add: w_def add.commute) (metis append_take_drop_id drop_drop)
    moreover have "length (w # fs) = (length buf - i + c - 1) div c"
      using ceil_div_step [of c "length buf - i"] True c len by simp
    moreover have "\<forall>f\<in>set (butlast (w # fs)). length f = c"
      using full w_full by simp
    moreover have "\<forall>f\<in>set (w # fs). 0 < length f \<and> length f \<le> c"
      using bnd w_len by simp
    ultimately show ?thesis by blast
  qed
qed

text \<open>
  Claim C2. For a chunk size above 0, when serializePath returns, signGetChunks returns
  the array that starts with the result of serializePath and goes on with the windows of
  the message bytes: there are \<open>1 + ceil(L/C)\<close> elements, the windows concatenated are the
  message, every window but the last has exactly C bytes, and no window is empty or
  longer than C.
\<close>

theorem signGetChunks_frames:
  assumes "0 < CHUNK_SIZE K"
    and "serializePath X this path = (Inr sp, this')"
  shows "\<exists>frames.
           signGetChunks X K this path msg = Some (Inr (sp # map Buf frames), this')
           \<and> length (sp # map Buf frames)
               = 1 + (length (Buffer_from msg) + CHUNK_SIZE K - 1) div CHUNK_SIZE K
           \<and> concat frames = Buffer_from msg
           \<and> (\<forall>f\<in>set (butlast frames). length f = CHUNK_SIZE K)
           \<and> (\<forall>f\<in>set frames. 0 < length f \<and> length f \<le> CHUNK_SIZE K)"
proof -
  from chunk_loop_frames [OF assms(1), of "Buffer_from msg" 0 "[sp]"]
  obtain frames where
    "chunk_loop (CHUNK_SIZE K) (Buffer_from msg) 0 [sp] = Some ([sp] @ map Buf frames)"
    "concat frames = drop 0 (Buffer_from msg)"
    "length frames = (length (Buffer_from msg) - 0 + CHUNK_SIZE K - 1) div CHUNK_SIZE K"
    "\<forall>f\<in>set (butlast frames). length f = CHUNK_SIZE K"
    "\<forall>f\<in>set frames. 0 < length f \<and> length f \<le> CHUNK_SIZE K"
    by blast
  then show ?thesis
    using assms(2) by (intro exI [of _ frames]) (simp add: signGetChunks_def)
qed


lemma example_serializePath:
  "serializePath example_externals example_app [44, 931, 0, 0, 0]
     = (Inr (Buf [0x2C, 0x00, 0x00, 0x80]),
        \<lparr>versionResponse = Some example_version, transport = []\<rparr>)"
  by (simp add: serializePath_def example_externals_def example_app_def example_version_def
        NoError_def)

lemma example_chunk_loop:
  "chunk_loop 3 [1, 2, 3, 4, 5, 6, 7] 0 [Buf [0x2C, 0x00, 0x00, 0x80]]
     = Some [Buf [0x2C, 0x00, 0x00, 0x80], Buf [1, 2, 3], Buf [4, 5, 6], Buf [7]]"
  by code_simp

theorem signGetChunks_frames_witness:
  "0 < CHUNK_SIZE example_constants
   \<and> signGetChunks example_externals example_constants example_app [44, 931, 0, 0, 0]
         (MsgBytes [1, 2, 3, 4, 5, 6, 7])
       = Some (Inr [Buf [0x2C, 0x00, 0x00, 0x80], Buf [1, 2, 3], Buf [4, 5, 6], Buf [7]],
               \<lparr>versionResponse = Some example_version, transport = []\<rparr>)
   \<and> (\<exists>frames.
         signGetChunks example_externals example_constants example_app [44, 931, 0, 0, 0]
             (MsgBytes [1, 2, 3, 4, 5, 6, 7])
           = Some (Inr (Buf [0x2C, 0x00, 0x00, 0x80] # map Buf frames),
                   \<lparr>versionResponse = Some example_version, transport = []\<rparr>)
         \<and> length (Buf [0x2C, 0x00, 0x00, 0x80] # map Buf frames) = 4
         \<and> concat frames = [1, 2, 3, 4, 5, 6, 7]
         \<and> (\<forall>f\<in>set (butlast frames). length f = 3)
         \<and> (\<forall>f\<in>set frames. 0 < length f \<and> length f \<le> 3))"
proof -
  have c: "0 < CHUNK_SIZE example_constants"
    by (simp add: example_constants_def)
  have e: "signGetChunks example_externals example_constants example_app [44, 931, 0, 0, 0]
         (MsgBytes [1, 2, 3, 4, 5, 6, 7])
       = Some (Inr [Buf [0x2C, 0x00, 0x00, 0x80], Buf [1, 2, 3], Buf [4, 5, 6], Buf [7]],
               \<lparr>versionResponse = Some example_version, transport = []\<rparr>)"
    by (simp add: signGetChunks_def example_serializePath Buffer_from_def example_constants_def
          example_chunk_loop)
  show ?thesis
    using c e signGetChunks_frames [OF c example_serializePath, of "MsgBytes [1, 2, 3, 4, 5, 6, 7]"]
    by (simp add: Buffer_from_def example_constants_def)
qed

subsection \<open>Signing\<close>

text \<open>
  Inside the loop of sign, a response whose return code is not success ends the loop:
  the chunks after it are not submitted, and the response is the result.
\<close>

lemma sign_loop_stops:
  assumes "i < length chunks"
    and "signSendChunk X this (1 + i) (length chunks) (chunks ! i) = (Inr r, this')"
    and "cr_return_code r \<noteq> NoError"
  shows "sign_loop X this chunks i result = (Inr r, this')"
  using assms by simp

text \<open>
  Claim C1 at the first chunk. The message has two bytes, so there are two chunks; the
  device answers chunk 1 (the path) with status 0x6984 and would answer chunk 2 with
  success. sign submits chunk 2 all the same, as the log of the transport shows, and its
  result is the response to chunk 2.
\<close>

theorem sign_first_chunk_failure_ignored:
  "sign example_externals example_constants example_app [44, 931, 0, 0, 0] (MsgBytes [0x7B, 0x7D])
     = Some (Inr (Result \<lparr>cr_return_code = 0x9000, cr_error_message = ''No errors'',
                    cr_signature = SigBytes [0x30, 0x44]\<rparr>),
             \<lparr>versionResponse = Some example_version,
              transport = [SignChunk 1 2 (Buf [0x2C, 0x00, 0x00, 0x80]),
                           SignChunk 2 2 (Buf [0x7B, 0x7D])]\<rparr>)"
proof -
  have l: "chunk_loop 3 [0x7B, 0x7D] 0 [Buf [0x2C, 0x00, 0x00, 0x80]]
             = Some [Buf [0x2C, 0x00, 0x00, 0x80], Buf [0x7B, 0x7D]]"
    by code_simp
  have g: "signGetChunks example_externals example_constants example_app [44, 931, 0, 0, 0]
             (MsgBytes [0x7B, 0x7D])
           = Some (Inr [Buf [0x2C, 0x00, 0x00, 0x80], Buf [0x7B, 0x7D]],
                   \<lparr>versionResponse = Some example_version, transport = []\<rparr>)"
    by (simp add: signGetChunks_def example_serializePath Buffer_from_def example_constants_def l)
  have v: "major example_version = 2"
    by (simp add: example_version_def)
  have s: "signSendChunkv2 example_externals d idx num c
             = (Inr (example_chunk_reply idx), d @ [SignChunk idx num c])" for d idx num c
    by (simp add: example_externals_def)
  show ?thesis
    by (simp add: sign_def g signSendChunk_def v s example_chunk_reply_def NoError_def)
qed

end
